theory Spec2Isabelle
  imports Complex_Main "HOL-Library.Word"
begin

unbundle bit_operations_syntax

section \<open>Byte strings and formatting helpers\<close>

text \<open>
  Go strings are byte strings; a \<^typ>\<open>string\<close> is the list of their bytes.
  \<open>strings.ToLower\<close> and \<open>strings.ToUpper\<close> are modelled on the ASCII letters, which is
  what they do to every byte string whose letters are ASCII; all role names, finish reasons
  and error words the program compares against are ASCII.
\<close>

definition upper_letters :: string where
  "upper_letters = ''ABCDEFGHIJKLMNOPQRSTUVWXYZ''"

definition lower_letters :: string where
  "lower_letters = ''abcdefghijklmnopqrstuvwxyz''"

definition lower_char :: "char \<Rightarrow> char" where
  "lower_char c = (case map_of (zip upper_letters lower_letters) c of Some d \<Rightarrow> d | None \<Rightarrow> c)"

definition upper_char :: "char \<Rightarrow> char" where
  "upper_char c = (case map_of (zip lower_letters upper_letters) c of Some d \<Rightarrow> d | None \<Rightarrow> c)"

definition ToLower :: "string \<Rightarrow> string" where
  "ToLower s = map lower_char s"

definition ToUpper :: "string \<Rightarrow> string" where
  "ToUpper s = map upper_char s"



text \<open>Decimal formatting of an integer, as the verb \<open>%d\<close> of \<open>fmt\<close> prints it.\<close>

definition digit_char :: "nat \<Rightarrow> char" where
  "digit_char d = (''0123456789abcdefghijklmnopqrstuvwxyz'' ! d)"

function format_nat :: "nat \<Rightarrow> nat \<Rightarrow> string" where
  "format_nat b n =
     (if b < 2 \<or> n < b then [digit_char n]
      else format_nat b (n div b) @ [digit_char (n mod b)])"
  by pat_completeness auto
termination
  by (relation "measure (\<lambda>(b, n). n)") auto

declare format_nat.simps [simp del]

definition FormatInt :: "int \<Rightarrow> nat \<Rightarrow> string" where
  "FormatInt i b = (if i < 0 then CHR ''-'' # format_nat b (nat (- i)) else format_nat b (nat i))"

definition itoa :: "int \<Rightarrow> string" where
  "itoa i = FormatInt i 10"

section \<open>The wire formats (package models)\<close>

text \<open>
  The structs of \<open>pkg/models\<close>. A pointer field (\<open>*float32\<close>, \<open>*int\<close>, \<open>*string\<close>, a pointer
  to a struct) is an \<open>option\<close>, \<open>None\<close> being \<open>nil\<close>. A \<open>float32\<close> is modelled by the rational
  number it denotes: the program only compares these values with the constants 0, 1 and 2 and
  overwrites them with those constants.
\<close>

record OpenAIMessage =
  msg_Role :: string
  msg_Content :: string

record GeminiPart =
  Text :: string

record GeminiContent =
  Role :: string
  Parts :: "GeminiPart list"

record GeminiSystemInstruction =
  si_Parts :: "GeminiPart list"

record GeminiGenerationConfig =
  Temperature :: "rat option"
  TopK :: "int option"
  TopP :: "rat option"
  MaxOutputTokens :: "int option"
  StopSequences :: "string list"

record GeminiRequest =
  Contents :: "GeminiContent list"
  SystemInstruction :: "GeminiSystemInstruction option"
  GenerationConfig :: "GeminiGenerationConfig option"

record OpenAIRequest =
  req_Model :: string
  req_Messages :: "OpenAIMessage list"
  req_Stream :: bool
  req_Temperature :: "rat option"
  req_MaxTokens :: "int option"
  req_TopP :: "rat option"
  req_Stop :: "string list"
  req_SystemInstruction :: "GeminiSystemInstruction option"

record OpenAIChoice =
  Index :: int
  Message :: "OpenAIMessage option"
  Delta :: "OpenAIMessage option"
  FinishReason :: "string option"

record OpenAIUsage =
  PromptTokens :: int
  CompletionTokens :: int
  TotalTokens :: int

record OpenAIResponse =
  resp_ID :: string
  resp_Object :: string
  resp_Created :: int
  resp_Model :: string
  resp_Choices :: "OpenAIChoice list"
  resp_Usage :: "OpenAIUsage option"

record GeminiCandidate =
  cand_Content :: GeminiContent
  cand_FinishReason :: string
  cand_Index :: int

record GeminiUsageMetadata =
  PromptTokenCount :: int
  CandidatesTokenCount :: int
  TotalTokenCount :: int

record GeminiResponse =
  Candidates :: "GeminiCandidate list"
  UsageMetadata :: "GeminiUsageMetadata option"

section \<open>The format converter (pkg/client/converter.go)\<close>

subsection \<open>OpenAIToGeminiRequest\<close>

text \<open>
  The first loop of \<open>OpenAIToGeminiRequest\<close>: it walks the messages once and appends each
  one either to \<open>systemParts\<close> or to \<open>nonSystemMessages\<close>.
\<close>

fun split_system ::
  "OpenAIMessage list \<Rightarrow> GeminiPart list \<Rightarrow> OpenAIMessage list
     \<Rightarrow> GeminiPart list \<times> OpenAIMessage list" where
  "split_system [] systemParts nonSystem = (systemParts, nonSystem)"
| "split_system (m # ms) systemParts nonSystem =
     (if ToLower (msg_Role m) = ''system''
      then split_system ms (systemParts @ [\<lparr>Text = msg_Content m\<rparr>]) nonSystem
      else split_system ms systemParts (nonSystem @ [m]))"

text \<open>
  The second loop: user stays user, assistant becomes model, any other role is skipped
  (with a warning in the log, which the model does not keep).
\<close>

fun conversation :: "OpenAIMessage list \<Rightarrow> GeminiContent list \<Rightarrow> GeminiContent list" where
  "conversation [] acc = acc"
| "conversation (m # ms) acc =
     (if ToLower (msg_Role m) = ''user''
      then conversation ms (acc @ [\<lparr>Role = ''user'', Parts = [\<lparr>Text = msg_Content m\<rparr>]\<rparr>])
      else if ToLower (msg_Role m) = ''assistant''
      then conversation ms (acc @ [\<lparr>Role = ''model'', Parts = [\<lparr>Text = msg_Content m\<rparr>]\<rparr>])
      else conversation ms acc)"

subsection \<open>mergeConsecutiveMessages\<close>

text \<open>
  The merge step of the loop body: \<open>current.Parts[0].Text += "\n" + next.Parts[0].Text\<close>,
  guarded by both part lists being non-empty. Only the first part of \<open>next\<close> is read.
\<close>

definition merge_text :: "GeminiContent \<Rightarrow> GeminiContent \<Rightarrow> GeminiContent" where
  "merge_text current next =
     (case (Parts current, Parts next) of
        (p # ps, q # qs) \<Rightarrow> current\<lparr>Parts := p\<lparr>Text := Text p @ [CHR 0x0A] @ Text q\<rparr> # ps\<rparr>
      | _ \<Rightarrow> current)"

fun merge_loop :: "GeminiContent \<Rightarrow> GeminiContent list \<Rightarrow> GeminiContent list \<Rightarrow> GeminiContent list" where
  "merge_loop current [] merged = merged @ [current]"
| "merge_loop current (next # rest) merged =
     (if Role current = Role next
      then merge_loop (merge_text current next) rest merged
      else merge_loop next rest (merged @ [current]))"

definition mergeConsecutiveMessages :: "GeminiContent list \<Rightarrow> GeminiContent list" where
  "mergeConsecutiveMessages contents =
     (case contents of
        [] \<Rightarrow> contents
      | [c] \<Rightarrow> contents
      | c # rest \<Rightarrow> merge_loop c rest [])"

definition OpenAIToGeminiRequest :: "OpenAIRequest option \<Rightarrow> string + GeminiRequest" where
  "OpenAIToGeminiRequest r =
     (case r of
        None \<Rightarrow> Inl ''request cannot be nil''
      | Some req \<Rightarrow>
          (let (embedded, nonSystemMessages) = split_system (req_Messages req) [] [];
               systemParts =
                 (case req_SystemInstruction req of
                    None \<Rightarrow> embedded
                  | Some si \<Rightarrow> if length (si_Parts si) > 0 then embedded @ si_Parts si else embedded)
           in Inr \<lparr>Contents = mergeConsecutiveMessages (conversation nonSystemMessages []),
                   SystemInstruction =
                     (if length systemParts > 0 then Some \<lparr>si_Parts = systemParts\<rparr> else None),
                   GenerationConfig =
                     Some \<lparr>Temperature = req_Temperature req, TopK = None, TopP = req_TopP req,
                           MaxOutputTokens = req_MaxTokens req, StopSequences = req_Stop req\<rparr>\<rparr>))"

subsection \<open>GeminiToOpenAIResponse\<close>

definition convertFinishReason :: "string \<Rightarrow> string" where
  "convertFinishReason geminiReason =
     (let u = ToUpper geminiReason in
      if u = ''STOP'' then ''stop''
      else if u = ''MAX_TOKENS'' then ''length''
      else if u = ''SAFETY'' \<or> u = ''RECITATION'' then ''content_filter''
      else ''stop'')"

text \<open>
  The two readings of the clock that the conversion makes (\<open>time.Now().UnixNano()\<close> for the
  identifier and \<open>time.Now().Unix()\<close> for the creation time) are inputs of the model.
\<close>

record clock =
  unix_nano :: int
  unix_sec :: int

definition GenerateRequestID :: "clock \<Rightarrow> string" where
  "GenerateRequestID clk = ''chatcmpl-'' @ FormatInt (unix_nano clk) 36"

definition GeminiToOpenAIResponse ::
  "clock \<Rightarrow> GeminiResponse option \<Rightarrow> string \<Rightarrow> string + OpenAIResponse" where
  "GeminiToOpenAIResponse clk g model =
     (case g of
        None \<Rightarrow> Inl ''Gemini response cannot be nil''
      | Some geminiResp \<Rightarrow>
          (let (content, finishReason) =
                 (case Candidates geminiResp of
                    [] \<Rightarrow> ([], None)
                  | candidate # _ \<Rightarrow>
                      (concat (filter (\<lambda>t. t \<noteq> []) (map Text (Parts (cand_Content candidate)))),
                       if cand_FinishReason candidate \<noteq> []
                       then Some (convertFinishReason (cand_FinishReason candidate)) else None))
           in Inr \<lparr>resp_ID = GenerateRequestID clk,
                   resp_Object = ''chat.completion'',
                   resp_Created = unix_sec clk,
                   resp_Model = model,
                   resp_Choices =
                     [\<lparr>Index = 0,
                       Message = Some \<lparr>msg_Role = ''assistant'', msg_Content = content\<rparr>,
                       Delta = None,
                       FinishReason = finishReason\<rparr>],
                   resp_Usage =
                     (case UsageMetadata geminiResp of
                        None \<Rightarrow> None
                      | Some u \<Rightarrow>
                          Some \<lparr>PromptTokens = PromptTokenCount u,
                                CompletionTokens = CandidatesTokenCount u,
                                TotalTokens = TotalTokenCount u\<rparr>)\<rparr>))"

subsection \<open>ValidateAndFixRequest\<close>



definition modelLimits :: "(string \<times> int) list" where
  "modelLimits =
     [(''gemini-pro'', 2048), (''gemini-pro-vision'', 2048),
      (''gemini-1.5-pro'', 8192), (''gemini-1.5-flash'', 8192),
      (''gemini-2.5-pro'', 8192), (''gemini-2.5-flash'', 8192)]"

definition fix_max_tokens :: "string \<Rightarrow> int option \<Rightarrow> int option" where
  "fix_max_tokens modelID m =
     (case map_of modelLimits modelID of
        Some limit \<Rightarrow>
          (case m of None \<Rightarrow> Some limit
                   | Some v \<Rightarrow> if v > limit then Some limit else Some v)
      | None \<Rightarrow> (case m of None \<Rightarrow> Some 2048 | Some v \<Rightarrow> Some v))"





subsection \<open>Notions used to state the converter's properties\<close>

text \<open>
  The system-role entries of a unified request, as parts, in message order; and the parts of
  its explicit top-level system-instruction field.
\<close>

definition embedded_system_parts :: "OpenAIRequest \<Rightarrow> GeminiPart list" where
  "embedded_system_parts req =
     map (\<lambda>m. \<lparr>Text = msg_Content m\<rparr>)
       (filter (\<lambda>m. ToLower (msg_Role m) = ''system'') (req_Messages req))"

definition explicit_system_parts :: "OpenAIRequest \<Rightarrow> GeminiPart list" where
  "explicit_system_parts req =
     (case req_SystemInstruction req of None \<Rightarrow> [] | Some si \<Rightarrow> si_Parts si)"




subsection \<open>Concrete inputs\<close>

definition sample_request :: OpenAIRequest where
  "sample_request =
     \<lparr>req_Model = ''gemini-pro'',
      req_Messages =
        [\<lparr>msg_Role = ''system'', msg_Content = ''be brief''\<rparr>,
         \<lparr>msg_Role = ''user'', msg_Content = ''hi''\<rparr>,
         \<lparr>msg_Role = ''System'', msg_Content = ''be kind''\<rparr>],
      req_Stream = False, req_Temperature = None, req_MaxTokens = None, req_TopP = None,
      req_Stop = [],
      req_SystemInstruction = Some \<lparr>si_Parts = [\<lparr>Text = ''explicit''\<rparr>]\<rparr>\<rparr>"




definition empty_response :: GeminiResponse where
  "empty_response = \<lparr>Candidates = [], UsageMetadata = None\<rparr>"

definition sample_clock :: clock where
  "sample_clock = \<lparr>unix_nano = 1700000000000000000, unix_sec = 1700000000\<rparr>"

section \<open>The credential manager (pkg/auth/auth.go)\<close>

subsection \<open>State\<close>

text \<open>
  \<open>oauth2.Token\<close> and \<open>oauth2.Config\<close> of the library, with the fields the manager reads. The
  expiry is kept as seconds since the epoch, \<open>None\<close> being the zero time.
\<close>

record Token =
  AccessToken :: string
  TokenType :: string
  RefreshToken :: string
  Expiry :: "int option"

record OAuthConfig =
  cfg_ClientID :: string
  cfg_ClientSecret :: string
  cfg_RedirectURL :: string
  cfg_Scopes :: "string list"
  cfg_AuthURL :: string
  cfg_TokenURL :: string

text \<open>
  The token source that \<open>oauthConfig.TokenSource(ctx, token)\<close> returns: it hands out the given
  token and refreshes it at the token endpoint of the configuration.
\<close>

record TokenSource =
  ts_Token :: Token
  ts_TokenURL :: string

text \<open>
  The struct \<open>GoogleAuth\<close>. The two channels have capacity one; each is modelled by its
  content (\<open>authComplete\<close> holds a value or not, \<open>fatalErrorChan\<close> holds at most one error).
  The logger and the callback \<open>onTokenReceived\<close>, which the callback handler starts on a
  goroutine of its own after it has answered, are not part of the state.
\<close>

record GoogleAuth =
  redirectURL :: string
  tokens :: "string list"
  tokenSource :: "TokenSource option"
  initialized :: bool
  oauthConfig :: OAuthConfig
  currentTokens :: "Token option"
  authComplete :: bool
  callbackPath :: string
  clientBinding :: string
  projectID :: string
  location :: string
  tokenBase64 :: string
  fatalErrorChan :: "string option"

record GoogleAuthConfig =
  gac_ProjectID :: string
  gac_RedirectURL :: string
  gac_Location :: string
  gac_OAuthTokens :: "string list"

definition DefaultLocation :: string where
  "DefaultLocation = ''us-central1''"

definition CloudScope :: string where
  "CloudScope = ''https://www.googleapis.com/auth/cloud-platform''"

definition GoogleAuthURL :: string where
  "GoogleAuthURL = ''https://accounts.google.com/o/oauth2/v2/auth''"

definition GoogleTokenURL :: string where
  "GoogleTokenURL = ''https://oauth2.googleapis.com/token''"

definition OAuthClientID :: string where
  "OAuthClientID = ''681255809395-oo8ft2oprdrnp9e3aqf6av3hmdib135j.apps.googleusercontent.com''"

definition OAuthClientSecret :: string where
  "OAuthClientSecret = ''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''"

subsection \<open>generateCallbackPath\<close>

text \<open>
  \<open>md5.Sum\<close> returns an array of sixteen bytes. The hash function itself belongs to the Go
  library and is a parameter of the model; its result type is the type of sixteen-byte arrays.
\<close>

typedef digest = "{bs :: 8 word list. length bs = 16}"
  by (rule exI [of _ "replicate 16 0"]) simp

text \<open>\<open>hex.EncodeToString\<close>: two lower-case hexadecimal digits for each byte.\<close>

definition hextable :: string where
  "hextable = ''0123456789abcdef''"

definition hex_byte :: "8 word \<Rightarrow> string" where
  "hex_byte b = [hextable ! unat (drop_bit 4 b), hextable ! unat (b AND 0x0F)]"

definition EncodeToString :: "8 word list \<Rightarrow> string" where
  "EncodeToString bs = concat (map hex_byte bs)"

definition generateCallbackPath :: "(string \<Rightarrow> digest) \<Rightarrow> GoogleAuth \<Rightarrow> string \<Rightarrow> GoogleAuth" where
  "generateCallbackPath md5_Sum g clientID =
     (if length clientID < 12
      then g\<lparr>callbackPath :=
               ''/oauth/callback/'' @ take 12 (EncodeToString (Rep_digest (md5_Sum clientID))),
             clientBinding := clientID\<rparr>
      else g\<lparr>callbackPath := ''/oauth/callback/'' @ take 12 clientID,
             clientBinding := clientID\<rparr>)"

subsection \<open>The environment of the manager\<close>

text \<open>
  What the manager obtains from libraries and from the network is a parameter of the model:
  the hash; the rewriting of the configured redirect URL onto the callback path
  (\<open>url.Parse\<close>, replacing path, query and fragment, and \<open>String\<close>; \<open>None\<close> when the URL does
  not parse); base64 decoding and the JSON parsing of a token (\<open>Inl\<close> the library's error
  text); the token exchange at the provider; the formatting of a token's expiry; the
  library's validity test of a token against the clock; and the replies of the project
  endpoints, the \<open>k\<close>-th call of each kind getting the \<open>k\<close>-th reply.
\<close>

datatype 'a api_reply =
    CallError string
  | Reply int "string + 'a"

record auth_env =
  md5_Sum :: "string \<Rightarrow> digest"
  rebase_url :: "string \<Rightarrow> string \<Rightarrow> string option"
  DecodeString :: "string \<Rightarrow> string + string"
  Unmarshal_Token :: "string \<Rightarrow> string + Token"
  Exchange :: "string \<Rightarrow> string + Token"
  format_expiry :: "Token \<Rightarrow> string"
  Valid :: "Token \<Rightarrow> bool"
  load_reply :: "nat \<Rightarrow> string api_reply"
  onboard_reply :: "nat \<Rightarrow> (bool \<times> string) api_reply"

subsection \<open>NewGoogleAuth\<close>

definition buildDynamicRedirectURL :: "auth_env \<Rightarrow> GoogleAuth \<Rightarrow> string \<Rightarrow> string" where
  "buildDynamicRedirectURL env g baseURL =
     (if baseURL = [] then []
      else case rebase_url env baseURL (callbackPath g) of None \<Rightarrow> [] | Some u \<Rightarrow> u)"

definition NewGoogleAuth :: "auth_env \<Rightarrow> GoogleAuthConfig option \<Rightarrow> GoogleAuth" where
  "NewGoogleAuth env authConfig =
     (let redirect = (case authConfig of None \<Rightarrow> [] | Some c \<Rightarrow> gac_RedirectURL c);
          toks = (case authConfig of None \<Rightarrow> [] | Some c \<Rightarrow> gac_OAuthTokens c);
          project = (case authConfig of None \<Rightarrow> [] | Some c \<Rightarrow> gac_ProjectID c);
          loc0 = (case authConfig of None \<Rightarrow> [] | Some c \<Rightarrow> gac_Location c);
          loc = (if loc0 = [] then DefaultLocation else loc0);
          auth0 = \<lparr>redirectURL = redirect, tokens = toks, tokenSource = None,
                   initialized = False,
                   oauthConfig = \<lparr>cfg_ClientID = [], cfg_ClientSecret = [], cfg_RedirectURL = [],
                                   cfg_Scopes = [], cfg_AuthURL = [], cfg_TokenURL = []\<rparr>,
                   currentTokens = None, authComplete = False, callbackPath = [],
                   clientBinding = [], projectID = project, location = loc, tokenBase64 = [],
                   fatalErrorChan = None\<rparr>;
          auth1 = generateCallbackPath (md5_Sum env) auth0 OAuthClientID
      in auth1\<lparr>oauthConfig :=
                 \<lparr>cfg_ClientID = OAuthClientID, cfg_ClientSecret = OAuthClientSecret,
                  cfg_RedirectURL = buildDynamicRedirectURL env auth1 redirect,
                  cfg_Scopes = [CloudScope], cfg_AuthURL = GoogleAuthURL,
                  cfg_TokenURL = GoogleTokenURL\<rparr>\<rparr>)"

subsection \<open>Initialize\<close>

definition loadTokenFromBase64 :: "auth_env \<Rightarrow> GoogleAuth \<Rightarrow> string \<Rightarrow> string option \<times> GoogleAuth" where
  "loadTokenFromBase64 env g encoded =
     (case DecodeString env encoded of
        Inl e \<Rightarrow> (Some (''failed to decode base64 token: '' @ e), g)
      | Inr decoded \<Rightarrow>
          (case Unmarshal_Token env decoded of
             Inl e \<Rightarrow> (Some (''failed to parse OAuth2 token: '' @ e), g)
           | Inr token \<Rightarrow>
               if AccessToken token = [] then (Some ''invalid token: missing access_token'', g)
               else (None, g\<lparr>currentTokens := Some token\<rparr>)))"

text \<open>The loop over the stored tokens: it leaves at the first token that loads.\<close>

fun load_tokens :: "auth_env \<Rightarrow> GoogleAuth \<Rightarrow> string list \<Rightarrow> GoogleAuth" where
  "load_tokens env g [] = g"
| "load_tokens env g (t # ts) =
     (case loadTokenFromBase64 env g t of
        (None, g') \<Rightarrow> g'
      | (Some e, g') \<Rightarrow> load_tokens env g' ts)"

definition auth_required :: string where
  "auth_required = ''OAuth2 authentication required, please call StartOAuthFlow''"

definition Initialize :: "auth_env \<Rightarrow> GoogleAuth \<Rightarrow> string option \<times> GoogleAuth" where
  "Initialize env g =
     (if initialized g then (None, g)
      else let g1 = (if length (tokens g) > 0 then load_tokens env g (tokens g) else g) in
        case currentTokens g1 of
          None \<Rightarrow> (Some auth_required, g1)
        | Some tok \<Rightarrow>
            (None, g1\<lparr>tokenSource := Some \<lparr>ts_Token = tok, ts_TokenURL = cfg_TokenURL (oauthConfig g1)\<rparr>,
                      initialized := True\<rparr>))"

text \<open>
  A stored token is structurally valid when it decodes, parses and has a non-empty access
  token; \<open>stored_token\<close> is the token it then denotes.
\<close>

definition stored_token :: "auth_env \<Rightarrow> string \<Rightarrow> Token option" where
  "stored_token env s =
     (case DecodeString env s of
        Inl e \<Rightarrow> None
      | Inr decoded \<Rightarrow>
          (case Unmarshal_Token env decoded of
             Inl e \<Rightarrow> None
           | Inr token \<Rightarrow> if AccessToken token = [] then None else Some token))"

definition first_valid :: "auth_env \<Rightarrow> string list \<Rightarrow> Token option" where
  "first_valid env ts = (case List.map_filter (stored_token env) ts of [] \<Rightarrow> None | tok # _ \<Rightarrow> Some tok)"

subsection \<open>handleOAuthCallback\<close>

text \<open>
  Of the request the handler reads the path and the query; \<open>r.URL.Query().Get(k)\<close> gives the
  first value of the key \<open>k\<close>, and the empty string when there is none. Of the response the
  model keeps the status, the content type and the body. \<open>http.Error\<close> writes its message
  and a newline as plain text. A body written by \<open>json.NewEncoder(w).Encode\<close> is kept as the
  object that was encoded; all values of the objects the handler encodes are strings.
\<close>

record callback_request =
  cb_Path :: string
  cb_Query :: "(string \<times> string) list"

definition Query_Get :: "(string \<times> string) list \<Rightarrow> string \<Rightarrow> string" where
  "Query_Get q k = (case map_of q k of None \<Rightarrow> [] | Some v \<Rightarrow> v)"

datatype body = NoBody | PlainText string | JsonObject "(string \<times> string) list"

record callback_response =
  Status :: int
  ContentType :: string
  Body :: body

definition http_Error :: "string \<Rightarrow> int \<Rightarrow> callback_response" where
  "http_Error msg code =
     \<lparr>Status = code, ContentType = ''text/plain; charset=utf-8'',
      Body = PlainText (msg @ [CHR 0x0A])\<rparr>"

definition json_response :: "int \<Rightarrow> (string \<times> string) list \<Rightarrow> callback_response" where
  "json_response code obj = \<lparr>Status = code, ContentType = ''application/json'', Body = JsonObject obj\<rparr>"

definition short_client_id :: string where
  "short_client_id = take (min (length OAuthClientID) 20) OAuthClientID @ ''...''"

definition handleOAuthCallback ::
  "auth_env \<Rightarrow> GoogleAuth \<Rightarrow> callback_request \<Rightarrow> callback_response \<times> GoogleAuth" where
  "handleOAuthCallback env g r =
     (let code = Query_Get (cb_Query r) ''code'';
          errorParam = Query_Get (cb_Query r) ''error''
      in
      if cb_Path r \<noteq> callbackPath g
      then (http_Error (''Invalid callback path: '' @ cb_Path r @ '', expected: '' @ callbackPath g) 400, g)
      else if errorParam \<noteq> []
      then (json_response 400
              [(''status'', ''error''),
               (''error'', errorParam),
               (''message'', ''OAuth authorization failed. Please try the authorization process again.'')],
            g)
      else if code = []
      then (\<lparr>Status = 204, ContentType = [], Body = NoBody\<rparr>, g)
      else
        (case Exchange env code of
           Inl err \<Rightarrow>
             (json_response 500
                [(''status'', ''error''),
                 (''error'', err),
                 (''message'', ''Token exchange failed. Please contact support if this problem persists.'')],
              g)
         | Inr token \<Rightarrow>
             (json_response 200
                [(''status'', ''success''),
                 (''message'', ''OAuth authentication successful''),
                 (''client_id'', short_client_id),
                 (''callback_path'', callbackPath g),
                 (''token_expires'', format_expiry env token),
                 (''note'', ''You can now close this browser tab.'')],
              g\<lparr>currentTokens := Some token, authComplete := True\<rparr>)))"

text \<open>A JSON status payload: an object with the fields \<open>status\<close> and \<open>message\<close>.\<close>

definition is_status_payload :: "body \<Rightarrow> bool" where
  "is_status_payload b =
     (case b of
        JsonObject obj \<Rightarrow> map_of obj ''status'' \<noteq> None \<and> map_of obj ''message'' \<noteq> None
      | _ \<Rightarrow> False)"

definition json_field :: "body \<Rightarrow> string \<Rightarrow> string option" where
  "json_field b k = (case b of JsonObject obj \<Rightarrow> map_of obj k | _ \<Rightarrow> None)"

subsection \<open>Project discovery\<close>

text \<open>
  The calls of the two project endpoints made so far and the seconds slept in the onboarding
  loop are kept in a trace, so that the number of calls and the backoff can be stated. The
  request bodies and the URLs of these calls are constants of the source, so building the
  requests cannot fail.
\<close>

record discovery_trace =
  load_calls :: nat
  onboard_calls :: nat
  slept :: nat

definition callCodeAssistAPI :: "auth_env \<Rightarrow> discovery_trace \<Rightarrow> (string + string) \<times> discovery_trace" where
  "callCodeAssistAPI env tr =
     (let tr' = tr\<lparr>load_calls := Suc (load_calls tr)\<rparr> in
      case load_reply env (load_calls tr) of
        CallError e \<Rightarrow> (Inl (''failed to call API: '' @ e), tr')
      | Reply status parsed \<Rightarrow>
          if status \<noteq> 200 then (Inl (''API returned status '' @ itoa status), tr')
          else (case parsed of
                  Inl e \<Rightarrow> (Inl (''failed to parse response: '' @ e), tr')
                | Inr project \<Rightarrow> (Inr project, tr')))"

definition callOnboardAPI :: "auth_env \<Rightarrow> discovery_trace \<Rightarrow> (string + string) \<times> discovery_trace" where
  "callOnboardAPI env tr =
     (let tr' = tr\<lparr>onboard_calls := Suc (onboard_calls tr)\<rparr> in
      case onboard_reply env (onboard_calls tr) of
        CallError e \<Rightarrow> (Inl (''failed to call onboard API: '' @ e), tr')
      | Reply status parsed \<Rightarrow>
          if status \<noteq> 200 then (Inl (''onboard API returned status '' @ itoa status), tr')
          else (case parsed of
                  Inl e \<Rightarrow> (Inl (''failed to parse onboard response: '' @ e), tr')
                | Inr (done, project) \<Rightarrow>
                    if done \<and> project \<noteq> [] then (Inr project, tr') else (Inr [], tr')))"

text \<open>
  The loop \<open>for i := 0; i < 10; i++\<close> of \<open>onboardUser\<close>, counted down: \<open>n\<close> is the number of
  iterations that remain.
\<close>

fun onboard_loop :: "auth_env \<Rightarrow> nat \<Rightarrow> discovery_trace \<Rightarrow> (string + string) \<times> discovery_trace" where
  "onboard_loop env 0 tr = (Inl ''onboarding process timed out'', tr)"
| "onboard_loop env (Suc n) tr =
     (case callOnboardAPI env tr of
        (Inl err, tr') \<Rightarrow> (Inl err, tr')
      | (Inr project, tr') \<Rightarrow>
          if project \<noteq> [] then (Inr project, tr')
          else onboard_loop env n (tr'\<lparr>slept := slept tr' + 2\<rparr>))"

definition onboardUser :: "auth_env \<Rightarrow> discovery_trace \<Rightarrow> (string + string) \<times> discovery_trace" where
  "onboardUser env tr =
     (case callCodeAssistAPI env tr of (_, tr') \<Rightarrow> onboard_loop env 10 tr')"

definition DiscoverProjectID ::
  "auth_env \<Rightarrow> GoogleAuth \<Rightarrow> discovery_trace \<Rightarrow> (string + string) \<times> discovery_trace" where
  "DiscoverProjectID env g tr =
     (case currentTokens g of
        None \<Rightarrow> (Inl ''no valid OAuth token available for project discovery'', tr)
      | Some tok \<Rightarrow>
          if \<not> Valid env tok
          then (Inl ''no valid OAuth token available for project discovery'', tr)
          else
            (case callCodeAssistAPI env tr of
               (Inr project, tr') \<Rightarrow>
                 if project \<noteq> [] then (Inr project, tr')
                 else (case onboardUser env tr' of
                         (Inl err, tr'') \<Rightarrow>
                           (Inl (''could not discover a valid Google Cloud Project ID: '' @ err), tr'')
                       | (Inr p, tr'') \<Rightarrow> (Inr p, tr''))
             | (Inl e, tr') \<Rightarrow>
                 (case onboardUser env tr' of
                    (Inl err, tr'') \<Rightarrow>
                      (Inl (''could not discover a valid Google Cloud Project ID: '' @ err), tr'')
                  | (Inr p, tr'') \<Rightarrow> (Inr p, tr''))))"

text \<open>
  An onboarding reply is incomplete when it has status 200, parses, and does not report
  completion together with a project id.
\<close>

definition incomplete :: "(bool \<times> string) api_reply \<Rightarrow> bool" where
  "incomplete r =
     (case r of
        Reply status (Inr (done, project)) \<Rightarrow> status = 200 \<and> \<not> (done \<and> project \<noteq> [])
      | _ \<Rightarrow> False)"

definition no_project :: "string api_reply \<Rightarrow> bool" where
  "no_project r = (case r of Reply status (Inr project) \<Rightarrow> \<not> (status = 200 \<and> project \<noteq> []) | _ \<Rightarrow> True)"

definition new_trace :: discovery_trace where
  "new_trace = \<lparr>load_calls = 0, onboard_calls = 0, slept = 0\<rparr>"

text \<open>What \<open>DiscoverProjectID\<close> makes of the result of \<open>onboardUser\<close>: it wraps the error.\<close>

definition wrap_discovery :: "(string + string) \<times> discovery_trace \<Rightarrow> (string + string) \<times> discovery_trace" where
  "wrap_discovery r =
     (case r of
        (Inl err, tr) \<Rightarrow> (Inl (''could not discover a valid Google Cloud Project ID: '' @ err), tr)
      | (Inr p, tr) \<Rightarrow> (Inr p, tr))"

section \<open>The request dispatcher (pkg/client/client.go)\<close>

subsection \<open>State and environment\<close>

text \<open>
  The fields of \<open>config.Config\<close> that the client reads. \<open>APIMode\<close> is a string type in the
  source, with the three named values below.
\<close>

record Config =
  APIMode :: string
  ProjectID :: string
  Location :: string
  MaxRetries :: int
  UserAgent :: string
  SystemPromptFile :: string
  SystemPromptMode :: string




record http_request =
  hr_Method :: string
  hr_URL :: string
  hr_Body :: string
  hr_Header :: "(string \<times> string) list"


text \<open>
  The client. \<open>transport\<close> is the proxy of \<open>client.Transport\<close>, \<open>None\<close> when no transport is set.
  Two fields are bookkeeping of the model: \<open>draws\<close> and \<open>token_calls\<close> count the numbers drawn
  from \<open>randSource\<close> and the calls of the token source, and \<open>sent\<close> lists the requests handed
  to \<open>client.Do\<close> so far, each with the proxy in use, oldest first. An HTTP attempt is an
  entry of \<open>sent\<close>.
\<close>

record GeminiClient =
  config :: Config
  auth :: "GoogleAuth option"
  useCodeAssist :: bool
  proxyURLs :: "string list"
  transport :: "string option"
  draws :: nat
  token_calls :: nat
  sent :: "(string option \<times> http_request) list"



subsection \<open>Proxy rotation\<close>



subsection \<open>Building the request\<close>










subsection \<open>isNetworkError\<close>



subsection \<open>sendRequestWithRetry\<close>








subsection \<open>SendStreamRequestRaw\<close>


subsection \<open>Notions used to state the dispatcher's properties\<close>




section \<open>Concrete environments and inputs\<close>

definition sample_token :: Token where
  "sample_token =
     \<lparr>AccessToken = ''test-access-token'', TokenType = ''Bearer'',
      RefreshToken = ''test-refresh-token'', Expiry = Some 1704103200\<rparr>"

definition exchanged_token :: Token where
  "exchanged_token =
     \<lparr>AccessToken = ''fresh-access-token'', TokenType = ''Bearer'',
      RefreshToken = ''fresh-refresh-token'', Expiry = Some 1704106800\<rparr>"

definition blank_token :: Token where
  "blank_token = \<lparr>AccessToken = [], TokenType = [], RefreshToken = [], Expiry = None\<rparr>"

text \<open>The sixteen bytes that MD5 gives for the identifier \<open>short\<close>.\<close>

definition short_digest :: "8 word list" where
  "short_digest = [0x4F, 0x09, 0xDA, 0xA9, 0xD9, 0x5B, 0xCB, 0x16, 0x6A, 0x30, 0x24, 0x07, 0xA0, 0xE0, 0xBA, 0xBE]"

text \<open>
  An environment for the concrete runs: a hash that maps every identifier to
  \<open>short_digest\<close>, stored tokens of which \<open>good\<close>
  decodes to \<open>sample_token\<close> and \<open>blank\<close> to a token without access token, a provider that
  accepts the code \<open>good-code\<close>, a load endpoint that knows no project, and an onboarding
  endpoint that is incomplete nine times and complete at the tenth call.
\<close>

definition sample_env :: auth_env where
  "sample_env =
     \<lparr>md5_Sum = (\<lambda>s. Abs_digest short_digest),
      rebase_url = (\<lambda>base path. Some (base @ path)),
      DecodeString =
        (\<lambda>s. if s = ''good'' then Inr ''{token}''
             else if s = ''blank'' then Inr ''{}''
             else if s = ''garbage'' then Inr ''invalid-json''
             else Inl ''illegal base64 data at input byte 7''),
      Unmarshal_Token =
        (\<lambda>d. if d = ''{token}'' then Inr sample_token
             else if d = ''{}'' then Inr blank_token
             else Inl ''invalid character''),
      Exchange =
        (\<lambda>code. if code = ''good-code'' then Inr exchanged_token
                else Inl ''oauth2: cannot fetch token''),
      format_expiry = (\<lambda>t. ''2024-01-01T11:00:00Z''),
      Valid = (\<lambda>t. AccessToken t \<noteq> []),
      load_reply = (\<lambda>k. Reply 200 (Inr [])),
      onboard_reply =
        (\<lambda>k. if k < 9 then Reply 200 (Inr (False, []))
             else Reply 200 (Inr (True, ''123456789012'')))\<rparr>"

definition sample_auth :: GoogleAuth where
  "sample_auth =
     NewGoogleAuth sample_env
       (Some \<lparr>gac_ProjectID = [], gac_RedirectURL = ''http://localhost:8081'',
               gac_Location = [], gac_OAuthTokens = [''not base64!'', ''blank'', ''good'', ''good'']\<rparr>)"

definition unauthorized_auth :: GoogleAuth where
  "unauthorized_auth =
     NewGoogleAuth sample_env
       (Some \<lparr>gac_ProjectID = [], gac_RedirectURL = ''http://localhost:8081'',
               gac_Location = [], gac_OAuthTokens = [''not base64!'', ''blank'', ''garbage'']\<rparr>)"

definition wrong_path_request :: callback_request where
  "wrong_path_request = \<lparr>cb_Path = ''/wrong/path'', cb_Query = [(''code'', ''good-code'')]\<rparr>"

definition denied_request :: callback_request where
  "denied_request =
     \<lparr>cb_Path = ''/oauth/callback/681255809395'', cb_Query = [(''error'', ''access_denied'')]\<rparr>"

definition empty_error_request :: callback_request where
  "empty_error_request =
     \<lparr>cb_Path = ''/oauth/callback/681255809395'', cb_Query = [(''error'', [])]\<rparr>"

definition poll_request :: callback_request where
  "poll_request = \<lparr>cb_Path = ''/oauth/callback/681255809395'', cb_Query = []\<rparr>"

definition good_code_request :: callback_request where
  "good_code_request =
     \<lparr>cb_Path = ''/oauth/callback/681255809395'', cb_Query = [(''code'', ''good-code'')]\<rparr>"

definition bad_code_request :: callback_request where
  "bad_code_request =
     \<lparr>cb_Path = ''/oauth/callback/681255809395'', cb_Query = [(''code'', ''stale-code'')]\<rparr>"

definition authorized_auth :: GoogleAuth where
  "authorized_auth = snd (Initialize sample_env sample_auth)"










section \<open>Properties of the string helpers\<close>






section \<open>Facts about merging turns\<close>










section \<open>Facts about the conversion and about validation\<close>

lemma split_system_eq:
  "split_system ms sp ns =
     (sp @ map (\<lambda>m. \<lparr>Text = msg_Content m\<rparr>) (filter (\<lambda>m. ToLower (msg_Role m) = ''system'') ms),
      ns @ filter (\<lambda>m. ToLower (msg_Role m) \<noteq> ''system'') ms)"
  by (induction ms arbitrary: sp ns) auto














lemma fix_max_tokens_default:
  "map_of modelLimits m = None \<Longrightarrow> fix_max_tokens m None = Some 2048"
  unfolding fix_max_tokens_def by simp

section \<open>Claims about the format converter\<close>

text \<open>
  Claim C5. For every unified request, the system-instruction block of the converted native
  request holds the texts of the system-role messages, in message order, followed by the
  parts of the explicit system-instruction field, in their order; when both are empty no
  block is set. The conversion of a non-nil request never fails.
\<close>

theorem C5_system_instruction_order:
  "\<exists>g. OpenAIToGeminiRequest (Some req) = Inr g \<and>
       SystemInstruction g =
         (if embedded_system_parts req @ explicit_system_parts req = [] then None
          else Some \<lparr>si_Parts = embedded_system_parts req @ explicit_system_parts req\<rparr>)"
  unfolding OpenAIToGeminiRequest_def embedded_system_parts_def explicit_system_parts_def
  by (auto simp: split_system_eq Let_def split: option.splits)

theorem C5_system_instruction_order_witness:
  "\<exists>g. OpenAIToGeminiRequest (Some sample_request) = Inr g \<and>
       SystemInstruction g =
         Some \<lparr>si_Parts = [\<lparr>Text = ''be brief''\<rparr>, \<lparr>Text = ''be kind''\<rparr>, \<lparr>Text = ''explicit''\<rparr>]\<rparr>"
  using C5_system_instruction_order [of sample_request]
  by (simp add: embedded_system_parts_def explicit_system_parts_def sample_request_def
      ToLower_def lower_char_def upper_letters_def lower_letters_def)








text \<open>
  Claim C9. The conversion of a non-nil native response succeeds and yields exactly one
  choice, with index 0 and a message of role assistant; when the candidate list is empty the
  content of that message is the empty string and the finish reason is absent.
\<close>

theorem C9_single_assistant_choice:
  "\<exists>r content fr.
     GeminiToOpenAIResponse clk (Some g) model = Inr r \<and>
     resp_Choices r =
       [\<lparr>Index = 0, Message = Some \<lparr>msg_Role = ''assistant'', msg_Content = content\<rparr>,
         Delta = None, FinishReason = fr\<rparr>] \<and>
     (Candidates g = [] \<longrightarrow> content = [] \<and> fr = None)"
  unfolding GeminiToOpenAIResponse_def
  by (cases "Candidates g") (simp_all add: Let_def)

theorem C9_single_assistant_choice_witness:
  "Candidates empty_response = [] \<and>
   (\<exists>r. GeminiToOpenAIResponse sample_clock (Some empty_response) ''gemini-pro'' = Inr r \<and>
     resp_Choices r =
       [\<lparr>Index = 0, Message = Some \<lparr>msg_Role = ''assistant'', msg_Content = []\<rparr>,
         Delta = None, FinishReason = None\<rparr>])"
  using C9_single_assistant_choice [of sample_clock empty_response "''gemini-pro''"]
  by (auto simp: empty_response_def)

section \<open>Claims about the credential manager\<close>

lemma length_hex_byte: "length (hex_byte b) = 2"
  by (simp add: hex_byte_def)

lemma length_EncodeToString: "length (EncodeToString bs) = 2 * length bs"
  unfolding EncodeToString_def by (induction bs) (simp_all add: length_hex_byte)

lemma length_digest_hex: "length (EncodeToString (Rep_digest d)) = 32"
  using Rep_digest [of d] by (simp add: length_EncodeToString)

lemma Rep_short_digest: "Rep_digest (Abs_digest short_digest) = short_digest"
  by (rule Abs_digest_inverse) (simp add: short_digest_def)

lemma hex_short_digest: "take 12 (EncodeToString short_digest) = ''4f09daa9d95b''"
  by (simp add: EncodeToString_def short_digest_def hex_byte_def hextable_def)

text \<open>
  Claim C3. The callback path is a function of the client identifier alone: for an
  identifier of at least 12 bytes it is the prefix \<open>/oauth/callback/\<close> followed by the first
  12 bytes of the identifier; for a shorter one it is the prefix followed by the first 12
  hexadecimal digits of the hash of the identifier; the identifier
  \<open>681255809395-oo8ft2oprdrnp9e3aqf6av3hmdib135j\<close> gives \<open>/oauth/callback/681255809395\<close>; and
  the path derived from an identifier is the same whatever the manager's state was before.
\<close>

theorem C3_callback_path:
  "(12 \<le> length clientID \<longrightarrow>
      callbackPath (generateCallbackPath h g clientID) = ''/oauth/callback/'' @ take 12 clientID) \<and>
   (length clientID < 12 \<longrightarrow>
      callbackPath (generateCallbackPath h g clientID) =
        ''/oauth/callback/'' @ take 12 (EncodeToString (Rep_digest (h clientID))) \<and>
      length (take 12 (EncodeToString (Rep_digest (h clientID)))) = 12) \<and>
   callbackPath (generateCallbackPath h g ''681255809395-oo8ft2oprdrnp9e3aqf6av3hmdib135j'') =
     ''/oauth/callback/681255809395'' \<and>
   callbackPath (generateCallbackPath h g clientID) = callbackPath (generateCallbackPath h g' clientID) \<and>
   clientBinding (generateCallbackPath h g clientID) = clientID"
  by (simp add: generateCallbackPath_def length_digest_hex)

theorem C3_callback_path_witness:
  "length ''short'' < 12 \<and> 12 \<le> length OAuthClientID \<and>
   callbackPath (generateCallbackPath (md5_Sum sample_env) sample_auth ''short'') =
     ''/oauth/callback/4f09daa9d95b'' \<and>
   callbackPath (generateCallbackPath (md5_Sum sample_env) unauthorized_auth ''short'') =
     ''/oauth/callback/4f09daa9d95b'' \<and>
   callbackPath (generateCallbackPath (md5_Sum sample_env) sample_auth OAuthClientID) =
     ''/oauth/callback/681255809395''"
  using C3_callback_path [of "''short''" "md5_Sum sample_env" sample_auth unauthorized_auth]
    C3_callback_path [of OAuthClientID "md5_Sum sample_env" sample_auth unauthorized_auth]
  by (auto simp: sample_env_def Rep_short_digest hex_short_digest OAuthClientID_def)

text \<open>
  The manager as \<open>NewGoogleAuth\<close> constructs it: bound to the fixed client identifier, not
  initialized, without a current token, holding the stored tokens of the configuration.
\<close>

lemma NewGoogleAuth_fresh:
  "\<not> initialized (NewGoogleAuth env cfg)" "currentTokens (NewGoogleAuth env cfg) = None"
  "callbackPath (NewGoogleAuth env cfg) = ''/oauth/callback/681255809395''"
  "clientBinding (NewGoogleAuth env cfg) = OAuthClientID"
  "cfg_TokenURL (oauthConfig (NewGoogleAuth env cfg)) = GoogleTokenURL"
  "tokens (NewGoogleAuth env (Some c)) = gac_OAuthTokens c"
  by (simp_all add: NewGoogleAuth_def Let_def generateCallbackPath_def OAuthClientID_def)

lemma loadTokenFromBase64_stored:
  "loadTokenFromBase64 env g s =
     (case stored_token env s of
        None \<Rightarrow> (fst (loadTokenFromBase64 env g s), g)
      | Some tok \<Rightarrow> (None, g\<lparr>currentTokens := Some tok\<rparr>))"
  unfolding loadTokenFromBase64_def stored_token_def
  by (auto split: sum.splits)

lemma loadTokenFromBase64_fails:
  "stored_token env s = None \<Longrightarrow> \<exists>e. loadTokenFromBase64 env g s = (Some e, g)"
  unfolding loadTokenFromBase64_def stored_token_def
  by (auto split: sum.splits if_splits)

lemma load_tokens_none:
  "(\<And>s. s \<in> set ts \<Longrightarrow> stored_token env s = None) \<Longrightarrow> load_tokens env g ts = g"
proof (induction ts)
  case Nil
  then show ?case by simp
next
  case (Cons t ts)
  then obtain e where "loadTokenFromBase64 env g t = (Some e, g)"
    using loadTokenFromBase64_fails[of env t g] by auto
  then show ?case using Cons by simp
qed

lemma load_tokens_first:
  "\<lbrakk>\<And>p. p \<in> set pre \<Longrightarrow> stored_token env p = None; stored_token env s = Some tok\<rbrakk>
   \<Longrightarrow> load_tokens env g (pre @ s # post) = g\<lparr>currentTokens := Some tok\<rparr>"
proof (induction pre)
  case Nil
  then show ?case using loadTokenFromBase64_stored[of env g s] by simp
next
  case (Cons t pre)
  then obtain e where "loadTokenFromBase64 env g t = (Some e, g)"
    using loadTokenFromBase64_fails[of env t g] by auto
  then show ?case using Cons by simp
qed

lemma Initialize_error: "fst (Initialize env g) = Some e \<Longrightarrow> e = auth_required"
  unfolding Initialize_def by (auto simp: Let_def split: if_splits option.splits)

text \<open>
  Claim C4. In the state in which the manager is constructed (not initialized, no current
  token), \<open>Initialize\<close> walks the stored tokens in list order and adopts the first one that
  decodes, parses and has a non-empty access token: when the list is \<open>pre @ s # post\<close>, no
  token of \<open>pre\<close> is valid and \<open>s\<close> denotes \<open>tok\<close>, it returns no error and the manager is
  initialized, with \<open>tok\<close> as current token and a token source on \<open>tok\<close> bound to the token
  endpoint of the configuration. When no stored token is valid, the state is unchanged, so
  still not initialized, and the result is the authorization-required error. That error is
  the only one \<open>Initialize\<close> ever returns, in any state: the errors of the token loads are
  logged and dropped, so a caller can branch on it.
\<close>

theorem C4_initialize:
  assumes "\<not> initialized g" and "currentTokens g = None"
  shows
    "(tokens g = pre @ s # post \<and> (\<forall>p \<in> set pre. stored_token env p = None) \<and>
        stored_token env s = Some tok \<longrightarrow>
        Initialize env g =
          (None, g\<lparr>currentTokens := Some tok,
                   tokenSource := Some \<lparr>ts_Token = tok, ts_TokenURL = cfg_TokenURL (oauthConfig g)\<rparr>,
                   initialized := True\<rparr>)) \<and>
     ((\<forall>s \<in> set (tokens g). stored_token env s = None) \<longrightarrow>
        Initialize env g = (Some auth_required, g)) \<and>
     (\<forall>g' e. fst (Initialize env g') = Some e \<longrightarrow> e = auth_required)"
proof (intro conjI allI impI)
  assume h: "tokens g = pre @ s # post \<and> (\<forall>p \<in> set pre. stored_token env p = None) \<and>
        stored_token env s = Some tok"
  then have "load_tokens env g (tokens g) = g\<lparr>currentTokens := Some tok\<rparr>"
    using load_tokens_first[of pre env s tok g post] by simp
  then show "Initialize env g =
          (None, g\<lparr>currentTokens := Some tok,
                   tokenSource := Some \<lparr>ts_Token = tok, ts_TokenURL = cfg_TokenURL (oauthConfig g)\<rparr>,
                   initialized := True\<rparr>)"
    using assms h by (simp add: Initialize_def Let_def)
next
  assume "\<forall>s \<in> set (tokens g). stored_token env s = None"
  then have "load_tokens env g (tokens g) = g"
    using load_tokens_none[of "tokens g" env g] by simp
  then show "Initialize env g = (Some auth_required, g)"
    using assms by (simp add: Initialize_def Let_def)
next
  fix g' e assume "fst (Initialize env g') = Some e"
  then show "e = auth_required" by (rule Initialize_error)
qed

lemma sample_stored:
  "stored_token sample_env ''not base64!'' = None"
  "stored_token sample_env ''blank'' = None"
  "stored_token sample_env ''garbage'' = None"
  "stored_token sample_env ''good'' = Some sample_token"
  by (simp_all add: stored_token_def sample_env_def blank_token_def sample_token_def)

lemma sample_auth_fresh:
  "\<not> initialized sample_auth" "currentTokens sample_auth = None"
  "tokens sample_auth = [''not base64!'', ''blank''] @ ''good'' # [''good'']"
  "cfg_TokenURL (oauthConfig sample_auth) = GoogleTokenURL"
  by (simp_all add: sample_auth_def NewGoogleAuth_def Let_def generateCallbackPath_def OAuthClientID_def)

lemma unauthorized_auth_fresh:
  "\<not> initialized unauthorized_auth" "currentTokens unauthorized_auth = None"
  "tokens unauthorized_auth = [''not base64!'', ''blank'', ''garbage'']"
  by (simp_all add: unauthorized_auth_def NewGoogleAuth_def Let_def generateCallbackPath_def OAuthClientID_def)

theorem C4_initialize_witness:
  "\<not> initialized sample_auth \<and> currentTokens sample_auth = None \<and>
   tokens sample_auth = [''not base64!'', ''blank''] @ ''good'' # [''good''] \<and>
   list_all (\<lambda>p. stored_token sample_env p = None) [''not base64!'', ''blank''] \<and>
   stored_token sample_env ''good'' = Some sample_token \<and>
   Initialize sample_env sample_auth =
     (None, sample_auth\<lparr>currentTokens := Some sample_token,
              tokenSource := Some \<lparr>ts_Token = sample_token, ts_TokenURL = GoogleTokenURL\<rparr>,
              initialized := True\<rparr>) \<and>
   \<not> initialized unauthorized_auth \<and> currentTokens unauthorized_auth = None \<and>
   list_all (\<lambda>p. stored_token sample_env p = None) (tokens unauthorized_auth) \<and>
   Initialize sample_env unauthorized_auth = (Some auth_required, unauthorized_auth) \<and>
   fst (Initialize sample_env unauthorized_auth) = Some auth_required"
  using C4_initialize [OF sample_auth_fresh(1,2),
      where pre = "[''not base64!'', ''blank'']" and s = "''good''" and post = "[''good'']"
        and tok = sample_token and env = sample_env]
    C4_initialize [OF unauthorized_auth_fresh(1,2), where env = sample_env]
  by (simp add: sample_auth_fresh unauthorized_auth_fresh sample_stored)

text \<open>
  Claim C2, as stated, fails in two places. A request on a wrong path is answered by
  \<open>http.Error\<close>: status 400 with a plain-text body, not a JSON status payload. And a request
  whose \<open>error\<close> parameter is present but empty is treated like one without that parameter: with
  no code it is answered 204, with no body.
\<close>

theorem C2_not_every_body_is_json:
  "cb_Path wrong_path_request \<noteq> callbackPath sample_auth \<and>
   fst (handleOAuthCallback sample_env sample_auth wrong_path_request) =
     \<lparr>Status = 400, ContentType = ''text/plain; charset=utf-8'',
      Body = PlainText (''Invalid callback path: /wrong/path, expected: /oauth/callback/681255809395''
                         @ [CHR 0x0A])\<rparr> \<and>
   \<not> is_status_payload (Body (fst (handleOAuthCallback sample_env sample_auth wrong_path_request))) \<and>
   map_of (cb_Query empty_error_request) ''error'' = Some [] \<and>
   fst (handleOAuthCallback sample_env sample_auth empty_error_request) =
     \<lparr>Status = 204, ContentType = [], Body = NoBody\<rparr> \<and>
   \<not> is_status_payload (Body (fst (handleOAuthCallback sample_env sample_auth empty_error_request)))"
  by (simp add: handleOAuthCallback_def wrong_path_request_def empty_error_request_def
      sample_auth_def NewGoogleAuth_def generateCallbackPath_def OAuthClientID_def Let_def
      Query_Get_def http_Error_def is_status_payload_def)

text \<open>
  Claim C2, amended. For every request delivered to the callback handler: if its path is
  not the bound callback path, the answer is status 400 with the plain-text message of
  \<open>http.Error\<close>, and the state is unchanged; otherwise, if the \<open>error\<close> parameter has a non-empty
  value, the answer is status 400 with a JSON status payload whose \<open>error\<close> field is that
  value, and the state is unchanged; otherwise, if the \<open>code\<close> parameter is absent or empty,
  the answer is status 204 without a body, and the state is unchanged; otherwise the code is
  exchanged: a failed exchange is answered with status 500 and a JSON status payload carrying
  the error, the state unchanged; a successful one with status 200 and a JSON status payload,
  the token becoming the current token and the auth-complete slot being filled.
\<close>

theorem C2_callback_contract:
  "(cb_Path r \<noteq> callbackPath g \<longrightarrow>
      handleOAuthCallback env g r =
        (http_Error (''Invalid callback path: '' @ cb_Path r @ '', expected: '' @ callbackPath g) 400, g)) \<and>
   (cb_Path r = callbackPath g \<and> Query_Get (cb_Query r) ''error'' \<noteq> [] \<longrightarrow>
      Status (fst (handleOAuthCallback env g r)) = 400 \<and>
      is_status_payload (Body (fst (handleOAuthCallback env g r))) \<and>
      json_field (Body (fst (handleOAuthCallback env g r))) ''status'' = Some ''error'' \<and>
      json_field (Body (fst (handleOAuthCallback env g r))) ''error'' =
        Some (Query_Get (cb_Query r) ''error'') \<and>
      snd (handleOAuthCallback env g r) = g) \<and>
   (cb_Path r = callbackPath g \<and> Query_Get (cb_Query r) ''error'' = [] \<and>
    Query_Get (cb_Query r) ''code'' = [] \<longrightarrow>
      handleOAuthCallback env g r = (\<lparr>Status = 204, ContentType = [], Body = NoBody\<rparr>, g)) \<and>
   (cb_Path r = callbackPath g \<and> Query_Get (cb_Query r) ''error'' = [] \<and>
    Query_Get (cb_Query r) ''code'' \<noteq> [] \<and>
    Exchange env (Query_Get (cb_Query r) ''code'') = Inl err \<longrightarrow>
      Status (fst (handleOAuthCallback env g r)) = 500 \<and>
      is_status_payload (Body (fst (handleOAuthCallback env g r))) \<and>
      json_field (Body (fst (handleOAuthCallback env g r))) ''status'' = Some ''error'' \<and>
      json_field (Body (fst (handleOAuthCallback env g r))) ''error'' = Some err \<and>
      snd (handleOAuthCallback env g r) = g) \<and>
   (cb_Path r = callbackPath g \<and> Query_Get (cb_Query r) ''error'' = [] \<and>
    Query_Get (cb_Query r) ''code'' \<noteq> [] \<and>
    Exchange env (Query_Get (cb_Query r) ''code'') = Inr token \<longrightarrow>
      Status (fst (handleOAuthCallback env g r)) = 200 \<and>
      is_status_payload (Body (fst (handleOAuthCallback env g r))) \<and>
      json_field (Body (fst (handleOAuthCallback env g r))) ''status'' = Some ''success'' \<and>
      snd (handleOAuthCallback env g r) = g\<lparr>currentTokens := Some token, authComplete := True\<rparr>)"
  by (simp add: handleOAuthCallback_def Let_def json_response_def is_status_payload_def
      json_field_def)

lemma sample_auth_state:
  "callbackPath sample_auth = ''/oauth/callback/681255809395''"
  "currentTokens sample_auth = None" "\<not> initialized sample_auth"
  by (simp_all add: sample_auth_def NewGoogleAuth_def Let_def generateCallbackPath_def
      OAuthClientID_def)

theorem C2_callback_contract_witness:
  "cb_Path denied_request = callbackPath sample_auth \<and>
   Query_Get (cb_Query denied_request) ''error'' = ''access_denied'' \<and>
   currentTokens sample_auth = None \<and> \<not> initialized sample_auth \<and>
   Status (fst (handleOAuthCallback sample_env sample_auth denied_request)) = 400 \<and>
   json_field (Body (fst (handleOAuthCallback sample_env sample_auth denied_request))) ''error'' =
     Some ''access_denied'' \<and>
   snd (handleOAuthCallback sample_env sample_auth denied_request) = sample_auth \<and>
   cb_Path wrong_path_request \<noteq> callbackPath sample_auth \<and>
   Status (fst (handleOAuthCallback sample_env sample_auth wrong_path_request)) = 400 \<and>
   snd (handleOAuthCallback sample_env sample_auth wrong_path_request) = sample_auth \<and>
   handleOAuthCallback sample_env sample_auth poll_request =
     (\<lparr>Status = 204, ContentType = [], Body = NoBody\<rparr>, sample_auth) \<and>
   Exchange sample_env (Query_Get (cb_Query bad_code_request) ''code'') =
     Inl ''oauth2: cannot fetch token'' \<and>
   Status (fst (handleOAuthCallback sample_env sample_auth bad_code_request)) = 500 \<and>
   snd (handleOAuthCallback sample_env sample_auth bad_code_request) = sample_auth \<and>
   Exchange sample_env (Query_Get (cb_Query good_code_request) ''code'') = Inr exchanged_token \<and>
   Status (fst (handleOAuthCallback sample_env sample_auth good_code_request)) = 200 \<and>
   currentTokens (snd (handleOAuthCallback sample_env sample_auth good_code_request)) =
     Some exchanged_token"
  using
    C2_callback_contract [of denied_request sample_auth sample_env]
    C2_callback_contract [of wrong_path_request sample_auth sample_env]
    C2_callback_contract [of poll_request sample_auth sample_env]
    C2_callback_contract [of bad_code_request sample_auth sample_env "''oauth2: cannot fetch token''"]
    C2_callback_contract [of good_code_request sample_auth sample_env _ exchanged_token]
  by (simp add: sample_auth_state denied_request_def wrong_path_request_def poll_request_def
      bad_code_request_def good_code_request_def Query_Get_def sample_env_def http_Error_def)

lemma callOnboardAPI_incomplete:
  "incomplete (onboard_reply env (onboard_calls tr)) \<Longrightarrow>
   callOnboardAPI env tr = (Inr [], tr\<lparr>onboard_calls := Suc (onboard_calls tr)\<rparr>)"
  unfolding callOnboardAPI_def incomplete_def
  by (auto simp: Let_def split: api_reply.splits sum.splits prod.splits)

lemma callOnboardAPI_complete:
  "onboard_reply env (onboard_calls tr) = Reply 200 (Inr (True, pid)) \<Longrightarrow> pid \<noteq> [] \<Longrightarrow>
   callOnboardAPI env tr = (Inr pid, tr\<lparr>onboard_calls := Suc (onboard_calls tr)\<rparr>)"
  unfolding callOnboardAPI_def by (simp add: Let_def)

lemma callOnboardAPI_status:
  "onboard_reply env (onboard_calls tr) = Reply st x \<Longrightarrow> st \<noteq> 200 \<Longrightarrow>
   callOnboardAPI env tr =
     (Inl (''onboard API returned status '' @ itoa st), tr\<lparr>onboard_calls := Suc (onboard_calls tr)\<rparr>)"
  unfolding callOnboardAPI_def by (simp add: Let_def)

lemma onboard_loop_complete:
  "\<lbrakk>k < n; \<And>j. j < k \<Longrightarrow> incomplete (onboard_reply env (onboard_calls tr + j));
    onboard_reply env (onboard_calls tr + k) = Reply 200 (Inr (True, pid)); pid \<noteq> []\<rbrakk>
   \<Longrightarrow> onboard_loop env n tr =
         (Inr pid, tr\<lparr>onboard_calls := onboard_calls tr + k + 1, slept := slept tr + 2 * k\<rparr>)"
proof (induction k arbitrary: n tr)
  case 0
  then obtain m where n: "n = Suc m" by (cases n) auto
  show ?case using 0 callOnboardAPI_complete[of env tr pid] by (simp add: n)
next
  case (Suc k)
  then obtain m where n: "n = Suc m" by (cases n) auto
  let ?tr = "tr\<lparr>onboard_calls := Suc (onboard_calls tr), slept := slept tr + 2\<rparr>"
  have first: "callOnboardAPI env tr = (Inr [], tr\<lparr>onboard_calls := Suc (onboard_calls tr)\<rparr>)"
    using Suc.prems(2)[of 0] by (simp add: callOnboardAPI_incomplete)
  have "onboard_loop env m ?tr =
          (Inr pid, ?tr\<lparr>onboard_calls := onboard_calls ?tr + k + 1, slept := slept ?tr + 2 * k\<rparr>)"
  proof (rule Suc.IH)
    show "k < m" using Suc.prems(1) n by simp
    show "incomplete (onboard_reply env (onboard_calls ?tr + j))" if "j < k" for j
      using Suc.prems(2)[of "Suc j"] that by simp
    show "onboard_reply env (onboard_calls ?tr + k) = Reply 200 (Inr (True, pid))"
      using Suc.prems(3) by simp
    show "pid \<noteq> []" by (rule Suc.prems(4))
  qed
  then show ?case using first by (simp add: n)
qed

lemma onboard_loop_status:
  "\<lbrakk>k < n; \<And>j. j < k \<Longrightarrow> incomplete (onboard_reply env (onboard_calls tr + j));
    onboard_reply env (onboard_calls tr + k) = Reply st x; st \<noteq> 200\<rbrakk>
   \<Longrightarrow> onboard_loop env n tr =
         (Inl (''onboard API returned status '' @ itoa st),
          tr\<lparr>onboard_calls := onboard_calls tr + k + 1, slept := slept tr + 2 * k\<rparr>)"
proof (induction k arbitrary: n tr)
  case 0
  then obtain m where n: "n = Suc m" by (cases n) auto
  show ?case using 0 callOnboardAPI_status[of env tr st x] by (simp add: n)
next
  case (Suc k)
  then obtain m where n: "n = Suc m" by (cases n) auto
  let ?tr = "tr\<lparr>onboard_calls := Suc (onboard_calls tr), slept := slept tr + 2\<rparr>"
  have first: "callOnboardAPI env tr = (Inr [], tr\<lparr>onboard_calls := Suc (onboard_calls tr)\<rparr>)"
    using Suc.prems(2)[of 0] by (simp add: callOnboardAPI_incomplete)
  have "onboard_loop env m ?tr =
          (Inl (''onboard API returned status '' @ itoa st),
           ?tr\<lparr>onboard_calls := onboard_calls ?tr + k + 1, slept := slept ?tr + 2 * k\<rparr>)"
  proof (rule Suc.IH)
    show "k < m" using Suc.prems(1) n by simp
    show "incomplete (onboard_reply env (onboard_calls ?tr + j))" if "j < k" for j
      using Suc.prems(2)[of "Suc j"] that by simp
    show "onboard_reply env (onboard_calls ?tr + k) = Reply st x"
      using Suc.prems(3) by simp
    show "st \<noteq> 200" by (rule Suc.prems(4))
  qed
  then show ?case using first by (simp add: n)
qed

lemma onboard_loop_timeout:
  "(\<And>j. j < n \<Longrightarrow> incomplete (onboard_reply env (onboard_calls tr + j))) \<Longrightarrow>
   onboard_loop env n tr =
     (Inl ''onboarding process timed out'',
      tr\<lparr>onboard_calls := onboard_calls tr + n, slept := slept tr + 2 * n\<rparr>)"
proof (induction n arbitrary: tr)
  case 0
  then show ?case by simp
next
  case (Suc n)
  let ?tr = "tr\<lparr>onboard_calls := Suc (onboard_calls tr), slept := slept tr + 2\<rparr>"
  have first: "callOnboardAPI env tr = (Inr [], tr\<lparr>onboard_calls := Suc (onboard_calls tr)\<rparr>)"
    using Suc.prems[of 0] by (simp add: callOnboardAPI_incomplete)
  have "onboard_loop env n ?tr =
          (Inl ''onboarding process timed out'',
           ?tr\<lparr>onboard_calls := onboard_calls ?tr + n, slept := slept ?tr + 2 * n\<rparr>)"
  proof (rule Suc.IH)
    show "incomplete (onboard_reply env (onboard_calls ?tr + j))" if "j < n" for j
      using Suc.prems[of "Suc j"] that by simp
  qed
  then show ?case using first by simp
qed

lemma callOnboardAPI_calls:
  "onboard_calls (snd (callOnboardAPI env tr)) = Suc (onboard_calls tr)"
  unfolding callOnboardAPI_def
  by (auto simp: Let_def split: api_reply.splits sum.splits prod.splits)

lemma onboard_loop_bound:
  "onboard_calls (snd (onboard_loop env n tr)) \<le> onboard_calls tr + n"
proof (induction n arbitrary: tr)
  case 0
  then show ?case by simp
next
  case (Suc n)
  obtain res tr' where c: "callOnboardAPI env tr = (res, tr')" by (cases "callOnboardAPI env tr")
  then have tr': "onboard_calls tr' = Suc (onboard_calls tr)"
    using callOnboardAPI_calls[of env tr] by simp
  show ?case
  proof (cases res)
    case (Inl e)
    then show ?thesis using c tr' by simp
  next
    case (Inr p)
    show ?thesis
    proof (cases "p = []")
      case True
      have "onboard_calls (snd (onboard_loop env n (tr'\<lparr>slept := slept tr' + 2\<rparr>)))
              \<le> onboard_calls (tr'\<lparr>slept := slept tr' + 2\<rparr>) + n"
        by (rule Suc.IH)
      then show ?thesis using c Inr True tr' by simp
    next
      case False
      then show ?thesis using c Inr tr' by simp
    qed
  qed
qed

lemma callCodeAssistAPI_trace:
  "snd (callCodeAssistAPI env tr) = tr\<lparr>load_calls := Suc (load_calls tr)\<rparr>"
  unfolding callCodeAssistAPI_def
  by (auto simp: Let_def split: api_reply.splits sum.splits)

lemma callCodeAssistAPI_status:
  "load_reply env (load_calls tr) = Reply st x \<Longrightarrow> st \<noteq> 200 \<Longrightarrow>
   fst (callCodeAssistAPI env tr) = Inl (''API returned status '' @ itoa st)"
  unfolding callCodeAssistAPI_def by (simp add: Let_def)

lemma callCodeAssistAPI_no_project:
  "no_project (load_reply env (load_calls tr)) \<Longrightarrow>
   (\<exists>e. fst (callCodeAssistAPI env tr) = Inl e) \<or> fst (callCodeAssistAPI env tr) = Inr []"
  unfolding callCodeAssistAPI_def no_project_def
  by (auto simp: Let_def split: api_reply.splits sum.splits)

lemma snd_wrap_discovery: "snd (wrap_discovery r) = snd r"
  unfolding wrap_discovery_def by (auto split: prod.splits sum.splits)

lemma DiscoverProjectID_onboards:
  assumes "currentTokens g = Some tok" and "Valid env tok"
    and "no_project (load_reply env (load_calls tr))"
  shows "DiscoverProjectID env g tr =
           wrap_discovery (onboard_loop env 10 (tr\<lparr>load_calls := load_calls tr + 2\<rparr>))"
proof -
  obtain r1 where c1: "callCodeAssistAPI env tr = (r1, tr\<lparr>load_calls := Suc (load_calls tr)\<rparr>)"
    using callCodeAssistAPI_trace[of env tr] by (cases "callCodeAssistAPI env tr") auto
  let ?t1 = "tr\<lparr>load_calls := Suc (load_calls tr)\<rparr>"
  obtain r2 where c2: "callCodeAssistAPI env ?t1 = (r2, ?t1\<lparr>load_calls := Suc (load_calls ?t1)\<rparr>)"
    using callCodeAssistAPI_trace[of env ?t1] by (cases "callCodeAssistAPI env ?t1") auto
  have ob: "onboardUser env ?t1 = onboard_loop env 10 (tr\<lparr>load_calls := load_calls tr + 2\<rparr>)"
    by (simp add: onboardUser_def c2)
  from callCodeAssistAPI_no_project[OF assms(3)] c1
  consider e where "r1 = Inl e" | "r1 = Inr []" by auto
  then show ?thesis
    by cases (auto simp: DiscoverProjectID_def assms(1,2) c1 ob wrap_discovery_def
        split: prod.splits sum.splits)
qed


text \<open>
  Claim C6. Let the manager hold a valid token and let the initial load call yield no
  project id. Then discovery makes a second load call, whose result it ignores, and enters
  the onboarding loop, which makes at most 10 onboarding calls and sleeps 2 seconds after
  each incomplete one. If the calls before call number \<open>k\<close> (counted from 0, \<open>k < 10\<close>) are
  incomplete and call \<open>k\<close> reports completion with a non-empty id, discovery returns that id
  after \<open>k + 1\<close> onboarding calls and \<open>2 * k\<close> seconds of sleep: with nine incomplete replies
  and the completion on the tenth call, after 18 seconds. If call \<open>k\<close> has a status other than
  200, discovery fails at once with that call's error. If all 10 calls are incomplete,
  discovery fails with the time-out error, after 20 seconds of sleep. A load call with a
  status other than 200 returns an error for that call.
\<close>

theorem C6_onboarding:
  assumes "currentTokens g = Some tok" and "Valid env tok"
    and "no_project (load_reply env 0)"
  shows
    "(k < 10 \<and> (\<forall>j. j < k \<longrightarrow> incomplete (onboard_reply env j)) \<and>
      onboard_reply env k = Reply 200 (Inr (True, pid)) \<and> pid \<noteq> [] \<longrightarrow>
        DiscoverProjectID env g new_trace =
          (Inr pid, \<lparr>load_calls = 2, onboard_calls = k + 1, slept = 2 * k\<rparr>)) \<and>
     (k < 10 \<and> (\<forall>j. j < k \<longrightarrow> incomplete (onboard_reply env j)) \<and>
      onboard_reply env k = Reply st x \<and> st \<noteq> 200 \<longrightarrow>
        DiscoverProjectID env g new_trace =
          (Inl (''could not discover a valid Google Cloud Project ID: '' @
                ''onboard API returned status '' @ itoa st),
           \<lparr>load_calls = 2, onboard_calls = k + 1, slept = 2 * k\<rparr>)) \<and>
     ((\<forall>j. j < 10 \<longrightarrow> incomplete (onboard_reply env j)) \<longrightarrow>
        DiscoverProjectID env g new_trace =
          (Inl (''could not discover a valid Google Cloud Project ID: '' @
                ''onboarding process timed out''),
           \<lparr>load_calls = 2, onboard_calls = 10, slept = 20\<rparr>)) \<and>
     onboard_calls (snd (DiscoverProjectID env g new_trace)) \<le> 10 \<and>
     (load_reply env (load_calls tr) = Reply st' x' \<and> st' \<noteq> 200 \<longrightarrow>
        fst (callCodeAssistAPI env tr) = Inl (''API returned status '' @ itoa st'))"
proof -
  let ?t = "new_trace\<lparr>load_calls := load_calls new_trace + 2\<rparr>"
  have D: "DiscoverProjectID env g new_trace = wrap_discovery (onboard_loop env 10 ?t)"
    using assms by (intro DiscoverProjectID_onboards) (simp_all add: new_trace_def)
  have t0: "onboard_calls ?t = 0" "slept ?t = 0" "load_calls ?t = 2"
    by (simp_all add: new_trace_def)
  have 1: "DiscoverProjectID env g new_trace =
          (Inr pid, \<lparr>load_calls = 2, onboard_calls = k + 1, slept = 2 * k\<rparr>)"
    if "k < 10 \<and> (\<forall>j. j < k \<longrightarrow> incomplete (onboard_reply env j)) \<and>
      onboard_reply env k = Reply 200 (Inr (True, pid)) \<and> pid \<noteq> []"
  proof -
    have "onboard_loop env 10 ?t =
            (Inr pid, ?t\<lparr>onboard_calls := onboard_calls ?t + k + 1, slept := slept ?t + 2 * k\<rparr>)"
      using that by (intro onboard_loop_complete) (simp_all add: t0 new_trace_def)
    then show ?thesis unfolding D by (simp add: wrap_discovery_def new_trace_def)
  qed
  have 2: "DiscoverProjectID env g new_trace =
          (Inl (''could not discover a valid Google Cloud Project ID: '' @
                ''onboard API returned status '' @ itoa st),
           \<lparr>load_calls = 2, onboard_calls = k + 1, slept = 2 * k\<rparr>)"
    if "k < 10 \<and> (\<forall>j. j < k \<longrightarrow> incomplete (onboard_reply env j)) \<and>
      onboard_reply env k = Reply st x \<and> st \<noteq> 200"
  proof -
    have "onboard_loop env 10 ?t =
            (Inl (''onboard API returned status '' @ itoa st),
             ?t\<lparr>onboard_calls := onboard_calls ?t + k + 1, slept := slept ?t + 2 * k\<rparr>)"
      using that by (intro onboard_loop_status[where x = x]) (simp_all add: t0 new_trace_def)
    then show ?thesis unfolding D by (simp add: wrap_discovery_def new_trace_def)
  qed
  have 3: "DiscoverProjectID env g new_trace =
          (Inl (''could not discover a valid Google Cloud Project ID: '' @
                ''onboarding process timed out''),
           \<lparr>load_calls = 2, onboard_calls = 10, slept = 20\<rparr>)"
    if "\<forall>j. j < 10 \<longrightarrow> incomplete (onboard_reply env j)"
  proof -
    have "onboard_loop env 10 ?t =
            (Inl ''onboarding process timed out'',
             ?t\<lparr>onboard_calls := onboard_calls ?t + 10, slept := slept ?t + 2 * 10\<rparr>)"
      using that by (intro onboard_loop_timeout) (simp_all add: t0 new_trace_def)
    then show ?thesis unfolding D by (simp add: wrap_discovery_def new_trace_def)
  qed
  have 4: "onboard_calls (snd (DiscoverProjectID env g new_trace)) \<le> 10"
    using onboard_loop_bound[of env 10 ?t]
    unfolding D by (simp add: snd_wrap_discovery new_trace_def)
  have 5: "fst (callCodeAssistAPI env tr) = Inl (''API returned status '' @ itoa st')"
    if "load_reply env (load_calls tr) = Reply st' x' \<and> st' \<noteq> 200"
    using that callCodeAssistAPI_status[of env tr st' x'] by simp
  from 1 2 3 4 5 show ?thesis by blast
qed

lemma Initialize_sample:
  "Initialize sample_env sample_auth =
     (None, sample_auth\<lparr>currentTokens := Some sample_token,
              tokenSource := Some \<lparr>ts_Token = sample_token, ts_TokenURL = GoogleTokenURL\<rparr>,
              initialized := True\<rparr>)"
  by (simp add: Initialize_def sample_auth_fresh Let_def loadTokenFromBase64_def
      sample_env_def blank_token_def sample_token_def)

lemma authorized_auth_token: "currentTokens authorized_auth = Some sample_token"
  by (simp add: authorized_auth_def Initialize_sample)

lemma sample_env_replies:
  "Valid sample_env sample_token" "no_project (load_reply sample_env 0)"
  "j < 9 \<Longrightarrow> incomplete (onboard_reply sample_env j)"
  "onboard_reply sample_env 9 = Reply 200 (Inr (True, ''123456789012''))"
  by (simp_all add: sample_env_def sample_token_def no_project_def incomplete_def)

theorem C6_onboarding_witness:
  "currentTokens authorized_auth = Some sample_token \<and> Valid sample_env sample_token \<and>
   no_project (load_reply sample_env 0) \<and>
   list_all (\<lambda>j. incomplete (onboard_reply sample_env j)) [0 ..< 9] \<and>
   onboard_reply sample_env 9 = Reply 200 (Inr (True, ''123456789012'')) \<and>
   DiscoverProjectID sample_env authorized_auth new_trace =
     (Inr ''123456789012'', \<lparr>load_calls = 2, onboard_calls = 10, slept = 18\<rparr>)"
  using C6_onboarding [OF authorized_auth_token sample_env_replies(1,2),
      where k = 9 and pid = "''123456789012''"]
  by (simp add: authorized_auth_token sample_env_replies list_all_iff)

section \<open>Claims about the request dispatcher\<close>






























end
